theory Spec2Isabelle
  imports Main "HOL-Library.Word"
begin

unbundle bit_operations_syntax

section \<open>Python values and exceptions\<close>

text \<open>
  The beacon-chain code is Python: integers are unbounded (\<open>int\<close>), \<open>//\<close> and \<open>%\<close>
  round towards minus infinity as \<open>div\<close> and \<open>mod\<close> do, and both raise on a zero
  divisor. Tuples are lists; indexing accepts a negative index counted from the end and
  raises outside the tuple. Every exception the modelled code can raise is a value of
  \<open>error\<close>, and a function that can raise returns \<open>error + 'a\<close>.
\<close>

datatype error =
    ValidationError
  | NoWinningRootError
  | IndexError
  | ZeroDivisionError
  | OverflowError
  | ValueError

type_synonym bytes = "8 word list"

definition bind_err :: "error + 'a \<Rightarrow> ('a \<Rightarrow> error + 'b) \<Rightarrow> error + 'b" where
  "bind_err m f = (case m of Inl e \<Rightarrow> Inl e | Inr x \<Rightarrow> f x)"

definition py_floordiv :: "int \<Rightarrow> int \<Rightarrow> error + int" where
  "py_floordiv a b = (if b = 0 then Inl ZeroDivisionError else Inr (a div b))"

definition py_mod :: "int \<Rightarrow> int \<Rightarrow> error + int" where
  "py_mod a b = (if b = 0 then Inl ZeroDivisionError else Inr (a mod b))"

text \<open>
  The position a Python index denotes in a tuple of \<open>len\<close> items: \<open>i\<close> itself from
  \<open>0\<close> to \<open>len - 1\<close>, \<open>len + i\<close> for \<open>i\<close> from \<open>- len\<close> to \<open>- 1\<close>, none otherwise.
\<close>

definition py_index :: "nat \<Rightarrow> int \<Rightarrow> nat option" where
  "py_index len i =
     (if 0 \<le> i \<and> i < int len then Some (nat i)
      else if - int len \<le> i \<and> i < 0 then Some (nat (int len + i))
      else None)"

definition py_getitem :: "'a list \<Rightarrow> int \<Rightarrow> error + 'a" where
  "py_getitem xs i =
     (case py_index (length xs) i of None \<Rightarrow> Inl IndexError | Some j \<Rightarrow> Inr (xs ! j))"

text \<open>\<open>range(a, b)\<close> over integers: empty when \<open>b \<le> a\<close>.\<close>

definition py_range :: "int \<Rightarrow> int \<Rightarrow> int list" where
  "py_range a b = [a..b - 1]"

text \<open>A \<open>for\<close> loop whose body can raise: the first exception ends the loop.\<close>

fun mapM_err :: "('a \<Rightarrow> error + 'b) \<Rightarrow> 'a list \<Rightarrow> error + 'b list" where
  "mapM_err f [] = Inr []"
| "mapM_err f (x # xs) =
     (case f x of Inl e \<Rightarrow> Inl e
      | Inr y \<Rightarrow> (case mapM_err f xs of Inl e \<Rightarrow> Inl e | Inr ys \<Rightarrow> Inr (y # ys)))"

fun foldM_err :: "('a \<Rightarrow> 's \<Rightarrow> error + 's) \<Rightarrow> 'a list \<Rightarrow> 's \<Rightarrow> error + 's" where
  "foldM_err f [] s = Inr s"
| "foldM_err f (x # xs) s =
     (case f x s of Inl e \<Rightarrow> Inl e | Inr s' \<Rightarrow> foldM_err f xs s')"

fun filterM_err :: "('a \<Rightarrow> error + bool) \<Rightarrow> 'a list \<Rightarrow> error + 'a list" where
  "filterM_err p [] = Inr []"
| "filterM_err p (x # xs) =
     (case p x of Inl e \<Rightarrow> Inl e
      | Inr b \<Rightarrow> (case filterM_err p xs of Inl e \<Rightarrow> Inl e
                 | Inr ys \<Rightarrow> Inr (if b then x # ys else ys)))"

text \<open>
  \<open>n.to_bytes(32, byteorder)\<close>: the 32 bytes of a non-negative integer below \<open>2 ^ 256\<close>,
  an OverflowError otherwise.
\<close>

definition to_bytes32_little :: "int \<Rightarrow> error + bytes" where
  "to_bytes32_little n =
     (if n < 0 \<or> 2 ^ 256 \<le> n then Inl OverflowError
      else Inr (map (\<lambda>i. word_of_int (drop_bit (8 * i) n)) [0..<32]))"

definition to_bytes32_big :: "int \<Rightarrow> error + bytes" where
  "to_bytes32_big n =
     (case to_bytes32_little n of Inl e \<Rightarrow> Inl e | Inr bs \<Rightarrow> Inr (rev bs))"

section \<open>Data model\<close>

record ValidatorRecord =
  activation_epoch :: int
  exit_epoch :: int

record Fork =
  previous_version :: int
  current_version :: int
  epoch :: int

record CrosslinkRecord =
  epoch :: int
  shard_block_root :: bytes

record AttestationData =
  slot :: int
  shard :: int
  justified_epoch :: int

record Attestation =
  data :: AttestationData

record CommitteeConfig =
  EPOCH_LENGTH :: int
  ACTIVATION_EXIT_DELAY :: int
  LATEST_ACTIVE_INDEX_ROOTS_LENGTH :: int

record BeaconConfig =
  EPOCH_LENGTH :: int
  SHARD_COUNT :: int
  TARGET_COMMITTEE_SIZE :: int
  MAX_DEPOSIT_AMOUNT :: int
  MIN_SEED_LOOKAHEAD :: int
  ACTIVATION_EXIT_DELAY :: int
  LATEST_ACTIVE_INDEX_ROOTS_LENGTH :: int
  LATEST_RANDAO_MIXES_LENGTH :: int
  LATEST_SLASHED_EXIT_LENGTH :: int
  GENESIS_EPOCH :: int

record BeaconState =
  slot :: int
  validator_registry :: "ValidatorRecord list"
  validator_balances :: "int list"
  latest_block_roots :: "bytes list"
  latest_randao_mixes :: "bytes list"
  latest_active_index_roots :: "bytes list"
  latest_crosslinks :: "CrosslinkRecord list"
  latest_slashed_balances :: "int list"
  latest_attestations :: "Attestation list"
  justification_bitfield :: int
  justified_epoch :: int
  previous_justified_epoch :: int
  finalized_epoch :: int
  current_calculation_epoch :: int
  previous_calculation_epoch :: int
  current_epoch_seed :: bytes
  previous_epoch_seed :: bytes
  current_epoch_start_shard :: int
  previous_epoch_start_shard :: int
  validator_registry_update_epoch :: int
  fork :: Fork

section \<open>helpers.py\<close>

definition slot_to_epoch :: "int \<Rightarrow> int \<Rightarrow> error + int" where
  "slot_to_epoch slot epoch_length = py_floordiv slot epoch_length" for slot

definition get_epoch_start_slot :: "int \<Rightarrow> int \<Rightarrow> int" where
  "get_epoch_start_slot epoch epoch_length = epoch * epoch_length" for epoch

text \<open>\<open>_get_block_root\<close> of helpers.py (an Isabelle name cannot start with an underscore).\<close>

definition get_block_root_inner :: "bytes list \<Rightarrow> int \<Rightarrow> int \<Rightarrow> int \<Rightarrow> error + bytes" where
  "get_block_root_inner latest_block_roots state_slot slot latest_block_roots_length =
     (if state_slot > slot + latest_block_roots_length then Inl ValidationError
      else if slot \<ge> state_slot then Inl ValidationError
      else bind_err (py_mod slot latest_block_roots_length) (py_getitem latest_block_roots))"
  for latest_block_roots slot

definition get_block_root :: "BeaconState \<Rightarrow> int \<Rightarrow> int \<Rightarrow> error + bytes" where
  "get_block_root state slot latest_block_roots_length =
     get_block_root_inner (latest_block_roots state) (BeaconState.slot state) slot
       latest_block_roots_length"
  for slot

definition get_effective_balance :: "int list \<Rightarrow> int \<Rightarrow> int \<Rightarrow> error + int" where
  "get_effective_balance validator_balances index max_deposit_amount =
     bind_err (py_getitem validator_balances index) (\<lambda>b. Inr (min b max_deposit_amount))"
  for validator_balances

definition get_total_balance :: "int list \<Rightarrow> int list \<Rightarrow> int \<Rightarrow> error + int" where
  "get_total_balance validator_balances validator_indices max_deposit_amount =
     bind_err
       (mapM_err (\<lambda>index. get_effective_balance validator_balances index max_deposit_amount)
          validator_indices)
       (\<lambda>bs. Inr (sum_list bs))"
  for validator_balances

definition is_double_vote :: "AttestationData \<Rightarrow> AttestationData \<Rightarrow> int \<Rightarrow> error + bool" where
  "is_double_vote attestation_data_1 attestation_data_2 epoch_length =
     bind_err (slot_to_epoch (AttestationData.slot attestation_data_1) epoch_length) (\<lambda>e1.
     bind_err (slot_to_epoch (AttestationData.slot attestation_data_2) epoch_length) (\<lambda>e2.
     Inr (e1 = e2)))"

definition is_surround_vote :: "AttestationData \<Rightarrow> AttestationData \<Rightarrow> int \<Rightarrow> error + bool" where
  "is_surround_vote attestation_data_1 attestation_data_2 epoch_length =
     (let source_epoch_1 = AttestationData.justified_epoch attestation_data_1;
          source_epoch_2 = AttestationData.justified_epoch attestation_data_2
      in bind_err (slot_to_epoch (AttestationData.slot attestation_data_1) epoch_length)
           (\<lambda>target_epoch_1.
         bind_err (slot_to_epoch (AttestationData.slot attestation_data_2) epoch_length)
           (\<lambda>target_epoch_2.
         Inr (source_epoch_1 < source_epoch_2 \<and> target_epoch_2 < target_epoch_1))))"

section \<open>epoch_processing.py: finality rules\<close>

text \<open>\<open>_get_finalized_epoch\<close>: the epoch to finalize and the number of the rule that fired.\<close>

definition get_finalized_epoch :: "int \<Rightarrow> int \<Rightarrow> int \<Rightarrow> int \<Rightarrow> int \<Rightarrow> int \<times> int" where
  "get_finalized_epoch justification_bitfield previous_justified_epoch justified_epoch
       finalized_epoch previous_epoch =
     (let rule_1 = ((drop_bit 1 justification_bitfield) mod 8 = 7 \<and>
                    previous_justified_epoch = previous_epoch - 2);
          rule_2 = ((drop_bit 1 justification_bitfield) mod 4 = 3 \<and>
                    previous_justified_epoch = previous_epoch - 1);
          rule_3 = (justification_bitfield mod 8 = 7 \<and>
                    justified_epoch = previous_epoch - 1);
          rule_4 = (justification_bitfield mod 4 = 3 \<and>
                    justified_epoch = previous_epoch)
      in if rule_4 then (justified_epoch, 4)
         else if rule_3 then (justified_epoch, 3)
         else if rule_2 then (previous_justified_epoch, 2)
         else if rule_1 then (previous_justified_epoch, 1)
         else (finalized_epoch, 0))"
  for justification_bitfield previous_justified_epoch justified_epoch finalized_epoch

section \<open>Code outside the sources\<close>

text \<open>
  The modules \<open>types.states\<close>, \<open>types.validator_records\<close>, \<open>configs\<close>,
  \<open>committee_helpers\<close>, \<open>epoch_processing_helpers\<close>, \<open>_utils.hash\<close> and
  \<open>_utils.numeric\<close> are not among the sources. What the transition functions call
  from them is a parameter of the model, collected in one record; a function that may
  raise returns \<open>error + 'a\<close>. Every theorem below holds for all values of the record.
  \<open>state_current_epoch\<close>, \<open>state_previous_epoch\<close> and \<open>state_next_epoch\<close> are the
  methods \<open>current_epoch\<close>, \<open>previous_epoch\<close> and \<open>next_epoch\<close> of BeaconState,
  \<open>is_active\<close> the method of ValidatorRecord, \<open>committee_config\<close> the constructor
  \<open>CommitteeConfig(config)\<close>, \<open>eph_get_total_balance\<close> the \<open>get_total_balance\<close>
  that epoch_processing.py imports from \<open>epoch_processing_helpers\<close>. The order in
  which Python iterates over a \<open>set\<close> is not fixed by the language:
  \<open>set_iteration_order\<close> takes the elements as generated and gives the order of
  iteration.
\<close>

record externals =
  state_current_epoch :: "BeaconState \<Rightarrow> int \<Rightarrow> error + int"
  state_previous_epoch :: "BeaconState \<Rightarrow> int \<Rightarrow> int \<Rightarrow> error + int"
  state_next_epoch :: "BeaconState \<Rightarrow> int \<Rightarrow> error + int"
  is_active :: "ValidatorRecord \<Rightarrow> int \<Rightarrow> bool"
  hash_eth2 :: "bytes \<Rightarrow> bytes"
  is_power_of_two :: "int \<Rightarrow> error + bool"
  committee_config :: "BeaconConfig \<Rightarrow> CommitteeConfig"
  set_iteration_order :: "int list \<Rightarrow> int list"
  get_crosslink_committees_at_slot ::
    "BeaconState \<Rightarrow> int \<Rightarrow> CommitteeConfig \<Rightarrow> error + (int list \<times> int) list"
  get_current_epoch_committee_count :: "BeaconState \<Rightarrow> int \<Rightarrow> int \<Rightarrow> int \<Rightarrow> error + int"
  get_current_epoch_attestations :: "BeaconState \<Rightarrow> int \<Rightarrow> error + Attestation list"
  get_previous_epoch_attestations :: "BeaconState \<Rightarrow> int \<Rightarrow> int \<Rightarrow> error + Attestation list"
  get_winning_root ::
    "BeaconState \<Rightarrow> int \<Rightarrow> Attestation list \<Rightarrow> int \<Rightarrow> CommitteeConfig \<Rightarrow> error + (bytes \<times> int)"
  eph_get_total_balance :: "int list \<Rightarrow> int list \<Rightarrow> int \<Rightarrow> error + int"
  get_epoch_boundary_attesting_balances ::
    "int \<Rightarrow> int \<Rightarrow> BeaconState \<Rightarrow> BeaconConfig \<Rightarrow> error + (int \<times> int)"

text \<open>
  Modelled from the spec: \<open>update_tuple_item\<close> (module \<open>_utils.tuple\<close>) is not among the
  sources. The spec has the transition functions replace one slot of a buffer and leave
  the others as they are ("get replaced", "copy-forward into the next epoch's ring-buffer
  slot"). The index is a Python index into the tuple, and an index outside it raises.
\<close>

definition update_tuple_item :: "'a list \<Rightarrow> int \<Rightarrow> 'a \<Rightarrow> error + 'a list" where
  "update_tuple_item tuple_data index new_value =
     (case py_index (length tuple_data) index of
        None \<Rightarrow> Inl IndexError
      | Some j \<Rightarrow> Inr (tuple_data[j := new_value]))"

text \<open>
  Modelled from the spec: \<open>validate_epoch_for_active_randao_mix\<close> (module \<open>validation\<close>)
  is not among the sources. The spec: the lookup fails with a range error unless
  \<open>current_epoch - latest_randao_mixes_length < epoch \<le> current_epoch\<close>.
\<close>

definition validate_epoch_for_active_randao_mix :: "int \<Rightarrow> int \<Rightarrow> int \<Rightarrow> error + unit" where
  "validate_epoch_for_active_randao_mix state_epoch epoch latest_randao_mixes_length =
     (if state_epoch - latest_randao_mixes_length < epoch \<and> epoch \<le> state_epoch
      then Inr () else Inl ValidationError)"
  for epoch

text \<open>
  Modelled from the spec: \<open>validate_epoch_for_active_index_root\<close> (module \<open>validation\<close>)
  is not among the sources. The spec: the lookup fails with a range error unless the
  epoch is within
  \<open>[current_epoch - length + activation_exit_delay + 1, current_epoch + activation_exit_delay]\<close>.
\<close>

definition validate_epoch_for_active_index_root :: "int \<Rightarrow> int \<Rightarrow> int \<Rightarrow> int \<Rightarrow> error + unit" where
  "validate_epoch_for_active_index_root state_epoch epoch activation_exit_delay
       latest_active_index_roots_length =
     (if state_epoch - latest_active_index_roots_length + activation_exit_delay + 1 \<le> epoch \<and>
         epoch \<le> state_epoch + activation_exit_delay
      then Inr () else Inl ValidationError)"
  for epoch

section \<open>helpers.py: lookups in the state\<close>

definition get_randao_mix :: "externals \<Rightarrow> BeaconState \<Rightarrow> int \<Rightarrow> int \<Rightarrow> int \<Rightarrow> error + bytes" where
  "get_randao_mix ext state epoch epoch_length latest_randao_mixes_length =
     bind_err (state_current_epoch ext state epoch_length) (\<lambda>state_epoch.
     bind_err (validate_epoch_for_active_randao_mix state_epoch epoch latest_randao_mixes_length)
       (\<lambda>_.
     bind_err (py_mod epoch latest_randao_mixes_length) (\<lambda>i.
     py_getitem (latest_randao_mixes state) i)))"
  for epoch

definition get_active_validator_indices :: "externals \<Rightarrow> ValidatorRecord list \<Rightarrow> int \<Rightarrow> int list" where
  "get_active_validator_indices ext validators epoch =
     map (\<lambda>(index, validator). int index)
       (filter (\<lambda>(index, validator). is_active ext validator epoch) (enumerate 0 validators))"
  for epoch

definition get_active_index_root ::
    "externals \<Rightarrow> BeaconState \<Rightarrow> int \<Rightarrow> int \<Rightarrow> int \<Rightarrow> int \<Rightarrow> error + bytes" where
  "get_active_index_root ext state epoch epoch_length activation_exit_delay
       latest_active_index_roots_length =
     bind_err (state_current_epoch ext state epoch_length) (\<lambda>state_epoch.
     bind_err (validate_epoch_for_active_index_root state_epoch epoch activation_exit_delay
                 latest_active_index_roots_length) (\<lambda>_.
     bind_err (py_mod epoch latest_active_index_roots_length) (\<lambda>i.
     py_getitem (latest_active_index_roots state) i)))"
  for epoch

definition generate_seed ::
    "externals \<Rightarrow> BeaconState \<Rightarrow> int \<Rightarrow> int \<Rightarrow> int \<Rightarrow> int \<Rightarrow> int \<Rightarrow> int \<Rightarrow> error + bytes" where
  "generate_seed ext state epoch epoch_length min_seed_lookahead activation_exit_delay
       latest_active_index_roots_length latest_randao_mixes_length =
     bind_err (get_randao_mix ext state (epoch - min_seed_lookahead) epoch_length
                 latest_randao_mixes_length) (\<lambda>randao_mix.
     bind_err (get_active_index_root ext state epoch epoch_length activation_exit_delay
                 latest_active_index_roots_length) (\<lambda>active_index_root.
     bind_err (to_bytes32_little epoch) (\<lambda>epoch_as_bytes.
     Inr (hash_eth2 ext (randao_mix @ active_index_root @ epoch_as_bytes)))))"
  for epoch

section \<open>epoch_processing.py: justification\<close>

text \<open>\<open>_current_previous_epochs_justifiable\<close>: the pair (current, previous).\<close>

definition current_previous_epochs_justifiable ::
    "externals \<Rightarrow> BeaconState \<Rightarrow> int \<Rightarrow> int \<Rightarrow> BeaconConfig \<Rightarrow> error + (bool \<times> bool)" where
  "current_previous_epochs_justifiable ext state current_epoch previous_epoch config =
     (let current_epoch_active_validator_indices =
            get_active_validator_indices ext (validator_registry state) current_epoch;
          previous_epoch_active_validator_indices =
            get_active_validator_indices ext (validator_registry state) previous_epoch
      in bind_err (eph_get_total_balance ext (validator_balances state)
                     current_epoch_active_validator_indices (MAX_DEPOSIT_AMOUNT config))
           (\<lambda>current_total_balance.
         bind_err (eph_get_total_balance ext (validator_balances state)
                     previous_epoch_active_validator_indices (MAX_DEPOSIT_AMOUNT config))
           (\<lambda>previous_total_balance.
         bind_err (get_epoch_boundary_attesting_balances ext current_epoch previous_epoch
                     state config)
           (\<lambda>(previous_epoch_boundary_attesting_balance,
               current_epoch_boundary_attesting_balance).
         let previous_epoch_justifiable =
               (3 * previous_epoch_boundary_attesting_balance \<ge> 2 * previous_total_balance);
             current_epoch_justifiable =
               (3 * current_epoch_boundary_attesting_balance \<ge> 2 * current_total_balance)
         in Inr (current_epoch_justifiable, previous_epoch_justifiable)))))"

definition process_justification :: "externals \<Rightarrow> BeaconState \<Rightarrow> BeaconConfig \<Rightarrow> error + BeaconState" where
  "process_justification ext state config =
     bind_err (state_current_epoch ext state (BeaconConfig.EPOCH_LENGTH config))
       (\<lambda>current_epoch.
     bind_err (state_previous_epoch ext state (BeaconConfig.EPOCH_LENGTH config)
                 (GENESIS_EPOCH config))
       (\<lambda>previous_epoch.
     bind_err (current_previous_epochs_justifiable ext state current_epoch previous_epoch config)
       (\<lambda>(current_epoch_justifiable, previous_epoch_justifiable).
     let shifted_bitfield = push_bit 1 (justification_bitfield state);
         new_bitfield =
           (if previous_epoch_justifiable \<and> current_epoch_justifiable then shifted_bitfield OR 3
            else if previous_epoch_justifiable then shifted_bitfield OR 2
            else if current_epoch_justifiable then shifted_bitfield OR 1
            else shifted_bitfield);
         new_justified_epoch =
           (if current_epoch_justifiable then current_epoch
            else if previous_epoch_justifiable then previous_epoch
            else justified_epoch state);
         new_finalized_epoch =
           fst (get_finalized_epoch new_bitfield (previous_justified_epoch state)
                  (justified_epoch state) (finalized_epoch state) previous_epoch)
     in Inr (state\<lparr>previous_justified_epoch := justified_epoch state,
                     justified_epoch := new_justified_epoch,
                     justification_bitfield := new_bitfield,
                     finalized_epoch := new_finalized_epoch\<rparr>))))"

section \<open>epoch_processing.py: crosslinks\<close>

text \<open>\<open>_filter_attestations_by_shard\<close>.\<close>

definition filter_attestations_by_shard :: "Attestation list \<Rightarrow> int \<Rightarrow> Attestation list" where
  "filter_attestations_by_shard attestations shard =
     filter (\<lambda>attestation. AttestationData.shard (data attestation) = shard) attestations"
  for shard

text \<open>
  The body of the inner loop of \<open>process_crosslinks\<close>, for one committee and its shard:
  the \<open>try\<close> covers the call of \<open>get_winning_root\<close> only, and only
  NoWinningRootError is caught.
\<close>

definition process_crosslinks_committee ::
    "externals \<Rightarrow> BeaconState \<Rightarrow> BeaconConfig \<Rightarrow> Attestation list \<Rightarrow> Attestation list \<Rightarrow>
     int list \<times> int \<Rightarrow> CrosslinkRecord list \<Rightarrow> error + CrosslinkRecord list" where
  "process_crosslinks_committee ext state config previous_epoch_attestations
       current_epoch_attestations committee_and_shard latest_crosslinks =
     (let (crosslink_committee, shard) = committee_and_shard in
        (case get_winning_root ext state shard
                (filter_attestations_by_shard
                   (previous_epoch_attestations @ current_epoch_attestations) shard)
                (MAX_DEPOSIT_AMOUNT config) (committee_config ext config) of
           Inl e \<Rightarrow> (if e = NoWinningRootError then Inr latest_crosslinks else Inl e)
         | Inr (winning_root, total_attesting_balance) \<Rightarrow>
             bind_err (mapM_err (\<lambda>i. get_effective_balance (validator_balances state) i
                                   (MAX_DEPOSIT_AMOUNT config)) crosslink_committee)
               (\<lambda>balances.
             let total_balance = sum_list balances
             in if 3 * total_attesting_balance \<ge> 2 * total_balance
                then bind_err (state_current_epoch ext state (BeaconConfig.EPOCH_LENGTH config))
                       (\<lambda>current_epoch.
                     update_tuple_item latest_crosslinks shard
                       \<lparr>CrosslinkRecord.epoch = current_epoch,
                        shard_block_root = winning_root\<rparr>)
                else Inr latest_crosslinks)))"
  for latest_crosslinks

text \<open>The body of the outer loop, for one slot.\<close>

definition process_crosslinks_slot ::
    "externals \<Rightarrow> BeaconState \<Rightarrow> BeaconConfig \<Rightarrow> Attestation list \<Rightarrow> Attestation list \<Rightarrow>
     int \<Rightarrow> CrosslinkRecord list \<Rightarrow> error + CrosslinkRecord list" where
  "process_crosslinks_slot ext state config previous_epoch_attestations
       current_epoch_attestations slot latest_crosslinks =
     bind_err (get_crosslink_committees_at_slot ext state slot (committee_config ext config))
       (\<lambda>crosslink_committees_at_slot.
     foldM_err (process_crosslinks_committee ext state config previous_epoch_attestations
                  current_epoch_attestations)
       crosslink_committees_at_slot latest_crosslinks)"
  for slot latest_crosslinks

definition process_crosslinks :: "externals \<Rightarrow> BeaconState \<Rightarrow> BeaconConfig \<Rightarrow> error + BeaconState" where
  "process_crosslinks ext state config =
     bind_err (get_previous_epoch_attestations ext state (BeaconConfig.EPOCH_LENGTH config)
                 (GENESIS_EPOCH config))
       (\<lambda>previous_epoch_attestations.
     bind_err (get_current_epoch_attestations ext state (BeaconConfig.EPOCH_LENGTH config))
       (\<lambda>current_epoch_attestations.
     bind_err (state_previous_epoch ext state (BeaconConfig.EPOCH_LENGTH config)
                 (GENESIS_EPOCH config))
       (\<lambda>previous_epoch.
     bind_err (state_next_epoch ext state (BeaconConfig.EPOCH_LENGTH config))
       (\<lambda>next_epoch.
     let prev_epoch_start_slot =
           get_epoch_start_slot previous_epoch (BeaconConfig.EPOCH_LENGTH config);
         next_epoch_start_slot =
           get_epoch_start_slot next_epoch (BeaconConfig.EPOCH_LENGTH config)
     in bind_err (foldM_err (process_crosslinks_slot ext state config
                               previous_epoch_attestations current_epoch_attestations)
                    (py_range prev_epoch_start_slot next_epoch_start_slot)
                    (latest_crosslinks state))
          (\<lambda>new_latest_crosslinks.
        Inr (state\<lparr>latest_crosslinks := new_latest_crosslinks\<rparr>))))))"

section \<open>epoch_processing.py: validator registry and shuffling seed data\<close>

text \<open>
  The loop of \<open>_check_if_update_validator_registry\<close> over the shards of the current
  committees: it returns at the first crosslink that is not newer than the last registry
  update, and reading a crosslink outside the tuple raises.
\<close>

fun crosslinks_all_newer :: "BeaconState \<Rightarrow> int list \<Rightarrow> error + bool" where
  "crosslinks_all_newer state [] = Inr True"
| "crosslinks_all_newer state (shard_index # shards) =
     (case py_getitem (latest_crosslinks state) shard_index of
        Inl e \<Rightarrow> Inl e
      | Inr crosslink \<Rightarrow>
          (if CrosslinkRecord.epoch crosslink \<le> validator_registry_update_epoch state
           then Inr False else crosslinks_all_newer state shards))"

text \<open>\<open>_check_if_update_validator_registry\<close>.\<close>

definition check_if_update_validator_registry ::
    "externals \<Rightarrow> BeaconState \<Rightarrow> BeaconConfig \<Rightarrow> error + (bool \<times> int)" where
  "check_if_update_validator_registry ext state config =
     (if finalized_epoch state \<le> validator_registry_update_epoch state then Inr (False, 0)
      else
        bind_err (get_current_epoch_committee_count ext state (SHARD_COUNT config)
                    (BeaconConfig.EPOCH_LENGTH config) (TARGET_COMMITTEE_SIZE config))
          (\<lambda>num_shards_in_committees.
        bind_err (mapM_err (\<lambda>i. py_mod (current_epoch_start_shard state + i)
                                   (SHARD_COUNT config))
                    (py_range 0 num_shards_in_committees))
          (\<lambda>generated.
        bind_err (crosslinks_all_newer state (set_iteration_order ext generated))
          (\<lambda>all_newer.
        if all_newer then Inr (True, num_shards_in_committees) else Inr (False, 0)))))"

definition update_validator_registry :: "BeaconState \<Rightarrow> BeaconState" where
  "update_validator_registry state = state"

definition process_validator_registry ::
    "externals \<Rightarrow> BeaconState \<Rightarrow> BeaconConfig \<Rightarrow> error + BeaconState" where
  "process_validator_registry ext state0 config =
     (let state = state0\<lparr>previous_calculation_epoch := current_calculation_epoch state0,
                         previous_epoch_start_shard := current_epoch_start_shard state0,
                         previous_epoch_seed := current_epoch_seed state0\<rparr>
      in bind_err (check_if_update_validator_registry ext state config)
           (\<lambda>(need_to_update, num_shards_in_committees).
         if need_to_update then
           (let state1 = update_validator_registry state
            in bind_err (state_next_epoch ext state1 (BeaconConfig.EPOCH_LENGTH config))
                 (\<lambda>next_epoch.
               let state2 = state1\<lparr>current_calculation_epoch := next_epoch\<rparr>
               in bind_err (py_mod (current_epoch_start_shard state2 + num_shards_in_committees)
                              (SHARD_COUNT config))
                    (\<lambda>start_shard.
                  let state3 = state2\<lparr>current_epoch_start_shard := start_shard\<rparr>
                  in bind_err (generate_seed ext state3 (current_calculation_epoch state3)
                                 (BeaconConfig.EPOCH_LENGTH config) (MIN_SEED_LOOKAHEAD config)
                                 (BeaconConfig.ACTIVATION_EXIT_DELAY config)
                                 (BeaconConfig.LATEST_ACTIVE_INDEX_ROOTS_LENGTH config)
                                 (LATEST_RANDAO_MIXES_LENGTH config))
                       (\<lambda>new_seed. Inr (state3\<lparr>current_epoch_seed := new_seed\<rparr>)))))
         else
           bind_err (state_current_epoch ext state (BeaconConfig.EPOCH_LENGTH config))
             (\<lambda>current_epoch.
           let epochs_since_last_registry_change =
                 current_epoch - validator_registry_update_epoch state
           in bind_err (is_power_of_two ext epochs_since_last_registry_change)
                (\<lambda>power_of_two.
              if power_of_two then
                bind_err (state_next_epoch ext state (BeaconConfig.EPOCH_LENGTH config))
                  (\<lambda>next_epoch.
                let state2 = state\<lparr>current_calculation_epoch := next_epoch\<rparr>
                in bind_err (generate_seed ext state2 (current_calculation_epoch state2)
                               (BeaconConfig.EPOCH_LENGTH config) (MIN_SEED_LOOKAHEAD config)
                               (BeaconConfig.ACTIVATION_EXIT_DELAY config)
                               (BeaconConfig.LATEST_ACTIVE_INDEX_ROOTS_LENGTH config)
                               (LATEST_RANDAO_MIXES_LENGTH config))
                     (\<lambda>new_seed. Inr (state2\<lparr>current_epoch_seed := new_seed\<rparr>)))
              else Inr state))))"

section \<open>epoch_processing.py: final updates\<close>

text \<open>\<open>_update_latest_active_index_roots\<close>.\<close>

definition update_latest_active_index_roots ::
    "externals \<Rightarrow> BeaconState \<Rightarrow> CommitteeConfig \<Rightarrow> error + BeaconState" where
  "update_latest_active_index_roots ext state committee_cfg =
     bind_err (state_next_epoch ext state (CommitteeConfig.EPOCH_LENGTH committee_cfg))
       (\<lambda>next_epoch.
     let active_validator_indices =
           get_active_validator_indices ext (validator_registry state)
             (next_epoch + CommitteeConfig.ACTIVATION_EXIT_DELAY committee_cfg)
     in bind_err (mapM_err to_bytes32_big active_validator_indices) (\<lambda>index_bytes.
        let index_root = hash_eth2 ext (concat index_bytes)
        in bind_err (py_mod (next_epoch + CommitteeConfig.ACTIVATION_EXIT_DELAY committee_cfg)
                       (CommitteeConfig.LATEST_ACTIVE_INDEX_ROOTS_LENGTH committee_cfg))
             (\<lambda>i.
           bind_err (update_tuple_item (latest_active_index_roots state) i index_root)
             (\<lambda>new_roots.
           Inr (state\<lparr>latest_active_index_roots := new_roots\<rparr>)))))"

definition process_final_updates :: "externals \<Rightarrow> BeaconState \<Rightarrow> BeaconConfig \<Rightarrow> error + BeaconState" where
  "process_final_updates ext state0 config =
     bind_err (state_current_epoch ext state0 (BeaconConfig.EPOCH_LENGTH config))
       (\<lambda>current_epoch.
     bind_err (state_next_epoch ext state0 (BeaconConfig.EPOCH_LENGTH config))
       (\<lambda>next_epoch.
     bind_err (update_latest_active_index_roots ext state0 (committee_config ext config))
       (\<lambda>state.
     bind_err (py_mod next_epoch (LATEST_SLASHED_EXIT_LENGTH config)) (\<lambda>slashed_to.
     bind_err (py_mod current_epoch (LATEST_SLASHED_EXIT_LENGTH config)) (\<lambda>slashed_from.
     bind_err (py_getitem (latest_slashed_balances state) slashed_from) (\<lambda>slashed_balance.
     bind_err (update_tuple_item (latest_slashed_balances state) slashed_to slashed_balance)
       (\<lambda>new_slashed_balances.
     bind_err (py_mod next_epoch (LATEST_SLASHED_EXIT_LENGTH config)) (\<lambda>mix_to.
     bind_err (get_randao_mix ext state current_epoch (BeaconConfig.EPOCH_LENGTH config)
                 (LATEST_RANDAO_MIXES_LENGTH config))
       (\<lambda>mix.
     bind_err (update_tuple_item (latest_randao_mixes state) mix_to mix) (\<lambda>new_randao_mixes.
     let state1 = state\<lparr>latest_slashed_balances := new_slashed_balances,
                         latest_randao_mixes := new_randao_mixes\<rparr>
     in bind_err (filterM_err
                    (\<lambda>attestation.
                       bind_err (slot_to_epoch (AttestationData.slot (data attestation))
                                   (BeaconConfig.EPOCH_LENGTH config))
                         (\<lambda>e. Inr (e \<ge> current_epoch)))
                    (latest_attestations state1))
          (\<lambda>new_attestations.
        Inr (state1\<lparr>latest_attestations := new_attestations\<rparr>))))))))))))"

section \<open>The finality rules as the specification words them\<close>

text \<open>
  The specification lists the rules by bit masks: the bottom two (three) bits of the
  bitfield, or of the bitfield shifted right by one, all set. The rules are tried in the
  order 4, 3, 2, 1 and the first that matches decides.
\<close>

definition finality_rules_spec :: "int \<Rightarrow> int \<Rightarrow> int \<Rightarrow> int \<Rightarrow> int \<Rightarrow> int \<times> int" where
  "finality_rules_spec bitfield prev_justified justified finalized prev_epoch =
     (if bitfield AND 3 = 3 \<and> justified = prev_epoch then (justified, 4)
      else if bitfield AND 7 = 7 \<and> justified = prev_epoch - 1 then (justified, 3)
      else if (drop_bit 1 bitfield) AND 3 = 3 \<and> prev_justified = prev_epoch - 1
        then (prev_justified, 2)
      else if (drop_bit 1 bitfield) AND 7 = 7 \<and> prev_justified = prev_epoch - 2
        then (prev_justified, 1)
      else (finalized, 0))"

section \<open>A concrete chain\<close>

text \<open>
  One configuration, one state and one choice of the outside code, on which the
  theorems are exercised: epochs of four slots, the state at slot 20 (epoch 5), three
  validators active throughout with balances 150, 100 and 50. The outside code takes
  the epochs from the slot, has one committee \<open>[0, 1, 2]\<close> for shard 0 at the state's
  slot, and reports fixed boundary attesting balances and a fixed attesting balance of
  the winning root, given as arguments.
\<close>

definition example_config :: BeaconConfig where
  "example_config =
     \<lparr>BeaconConfig.EPOCH_LENGTH = 4, SHARD_COUNT = 2, TARGET_COMMITTEE_SIZE = 3,
      MAX_DEPOSIT_AMOUNT = 200, MIN_SEED_LOOKAHEAD = 1,
      BeaconConfig.ACTIVATION_EXIT_DELAY = 1,
      BeaconConfig.LATEST_ACTIVE_INDEX_ROOTS_LENGTH = 8, LATEST_RANDAO_MIXES_LENGTH = 8,
      LATEST_SLASHED_EXIT_LENGTH = 4, GENESIS_EPOCH = 0\<rparr>"

definition example_state :: BeaconState where
  "example_state =
     \<lparr>BeaconState.slot = 20,
      validator_registry =
        [\<lparr>activation_epoch = 0, exit_epoch = 100\<rparr>,
         \<lparr>activation_epoch = 0, exit_epoch = 100\<rparr>,
         \<lparr>activation_epoch = 0, exit_epoch = 100\<rparr>],
      validator_balances = [150, 100, 50],
      latest_block_roots = [[0], [1], [2], [3]],
      latest_randao_mixes = [[10], [11], [12], [13], [14], [15], [16], [17]],
      latest_active_index_roots = [[20], [21], [22], [23], [24], [25], [26], [27]],
      latest_crosslinks =
        [\<lparr>CrosslinkRecord.epoch = 3, shard_block_root = [30]\<rparr>,
         \<lparr>CrosslinkRecord.epoch = 3, shard_block_root = [31]\<rparr>],
      latest_slashed_balances = [0, 7, 0, 0],
      latest_attestations =
        [\<lparr>data = \<lparr>AttestationData.slot = 13, shard = 0, AttestationData.justified_epoch = 2\<rparr>\<rparr>,
         \<lparr>data = \<lparr>AttestationData.slot = 20, shard = 0, AttestationData.justified_epoch = 4\<rparr>\<rparr>],
      justification_bitfield = 3,
      justified_epoch = 4,
      previous_justified_epoch = 3,
      finalized_epoch = 2,
      current_calculation_epoch = 5,
      previous_calculation_epoch = 4,
      current_epoch_seed = [40],
      previous_epoch_seed = [41],
      current_epoch_start_shard = 1,
      previous_epoch_start_shard = 0,
      validator_registry_update_epoch = 1,
      fork = \<lparr>previous_version = 0, current_version = 1, Fork.epoch = 0\<rparr>\<rparr>"

definition example_externals :: "int \<Rightarrow> int \<Rightarrow> int \<Rightarrow> externals" where
  "example_externals previous_boundary_balance current_boundary_balance winning_balance =
     \<lparr>state_current_epoch = (\<lambda>state epoch_length.
        slot_to_epoch (BeaconState.slot state) epoch_length),
      state_previous_epoch = (\<lambda>state epoch_length genesis_epoch.
        bind_err (slot_to_epoch (BeaconState.slot state) epoch_length)
          (\<lambda>e. Inr (if e > genesis_epoch then e - 1 else e))),
      state_next_epoch = (\<lambda>state epoch_length.
        bind_err (slot_to_epoch (BeaconState.slot state) epoch_length) (\<lambda>e. Inr (e + 1))),
      is_active = (\<lambda>validator e. activation_epoch validator \<le> e \<and> e < exit_epoch validator),
      hash_eth2 = (\<lambda>bs. [of_nat (length bs)]),
      is_power_of_two = (\<lambda>n. if n < 0 then Inl ValueError
                               else Inr (n \<noteq> 0 \<and> n AND (n - 1) = 0)),
      committee_config = (\<lambda>config.
        \<lparr>CommitteeConfig.EPOCH_LENGTH = BeaconConfig.EPOCH_LENGTH config,
         CommitteeConfig.ACTIVATION_EXIT_DELAY = BeaconConfig.ACTIVATION_EXIT_DELAY config,
         CommitteeConfig.LATEST_ACTIVE_INDEX_ROOTS_LENGTH =
           BeaconConfig.LATEST_ACTIVE_INDEX_ROOTS_LENGTH config\<rparr>),
      set_iteration_order = remdups,
      get_crosslink_committees_at_slot = (\<lambda>state n cfg.
        Inr (if n = BeaconState.slot state then [([0, 1, 2], 0)] else [])),
      get_current_epoch_committee_count = (\<lambda>state shard_count epoch_length size. Inr 1),
      get_current_epoch_attestations = (\<lambda>state epoch_length. Inr (latest_attestations state)),
      get_previous_epoch_attestations = (\<lambda>state epoch_length genesis_epoch. Inr []),
      get_winning_root = (\<lambda>state n attestations max_deposit cfg.
        if attestations = [] then Inl NoWinningRootError else Inr ([50], winning_balance)),
      eph_get_total_balance = get_total_balance,
      get_epoch_boundary_attesting_balances = (\<lambda>current previous state config.
        Inr (previous_boundary_balance, current_boundary_balance))\<rparr>"

section \<open>Basic facts\<close>

lemma bind_err_simps [simp]:
  "bind_err (Inl e) f = Inl e"
  "bind_err (Inr x) f = f x"
  by (simp_all add: bind_err_def)

lemma bind_err_eq_Inr:
  "bind_err m f = Inr y \<longleftrightarrow> (\<exists>x. m = Inr x \<and> f x = Inr y)"
  by (cases m) simp_all

lemma and_3_eq_mod: "(k::int) AND 3 = k mod 4"
  using take_bit_eq_mask [of 2 k] by (simp add: take_bit_eq_mod mask_eq_exp_minus_1)

lemma and_7_eq_mod: "(k::int) AND 7 = k mod 8"
  using take_bit_eq_mask [of 3 k] by (simp add: take_bit_eq_mod mask_eq_exp_minus_1)

lemma py_getitem_nonneg:
  "0 \<le> i \<Longrightarrow>
   py_getitem xs i = (if i < int (length xs) then Inr (xs ! nat i) else Inl IndexError)"
  by (simp add: py_getitem_def py_index_def)

section \<open>Block roots\<close>

text \<open>
  \<open>get_block_root\<close> in one equation: the two range checks, then the read of the
  buffer. Past the checks the length is positive, so the index \<open>slot % length\<close> is not
  negative and the read fails exactly when the buffer is too short.
\<close>

lemma get_block_root_eval:
  "get_block_root state n len =
     (if BeaconState.slot state > n + len \<or> n \<ge> BeaconState.slot state then Inl ValidationError
      else if n mod len < int (length (latest_block_roots state))
        then Inr (latest_block_roots state ! nat (n mod len))
      else Inl IndexError)"
proof (cases "BeaconState.slot state > n + len \<or> n \<ge> BeaconState.slot state")
  case True
  then show ?thesis
    by (auto simp add: get_block_root_def get_block_root_inner_def)
next
  case False
  then have pos: "0 < len" by arith
  then have "0 \<le> n mod len" by simp
  with False pos show ?thesis
    by (simp add: get_block_root_def get_block_root_inner_def py_mod_def py_getitem_nonneg)
qed

text \<open>
  C8: \<open>get_block_root\<close> raises ValidationError if and only if slot \<ge> state.slot or
  state.slot > slot + length. On a state whose buffer \<open>latest_block_roots\<close> has the
  length the call names, it succeeds exactly when state.slot - length \<le> slot < state.slot,
  and then returns \<open>latest_block_roots[slot % length]\<close>; the read of the buffer never
  fails there.
\<close>

theorem get_block_root_window:
  "(get_block_root state n len = Inl ValidationError \<longleftrightarrow>
      n \<ge> BeaconState.slot state \<or> BeaconState.slot state > n + len) \<and>
   (int (length (latest_block_roots state)) = len \<longrightarrow>
      ((\<exists>root. get_block_root state n len = Inr root) \<longleftrightarrow>
         BeaconState.slot state - len \<le> n \<and> n < BeaconState.slot state) \<and>
      (BeaconState.slot state - len \<le> n \<and> n < BeaconState.slot state \<longrightarrow>
         get_block_root state n len = Inr (latest_block_roots state ! nat (n mod len))) \<and>
      get_block_root state n len \<noteq> Inl IndexError)"
proof -
  have inside: "n mod len < int (length (latest_block_roots state))"
    if "int (length (latest_block_roots state)) = len"
      and "\<not> (BeaconState.slot state > n + len \<or> n \<ge> BeaconState.slot state)"
  proof -
    from that(2) have "0 < len" by arith
    then have "n mod len < len" by simp
    with that(1) show ?thesis by simp
  qed
  show ?thesis
    unfolding get_block_root_eval using inside by auto
qed

text \<open>
  C8, on the concrete state (slot 20, four block roots, length 4): slots 16 and 17 are
  read, slot 15 is too old and slot 20 is not in the past.
\<close>

theorem get_block_root_window_witness:
  "int (length (latest_block_roots example_state)) = 4 \<and>
   get_block_root example_state 17 4 = Inr [1] \<and>
   get_block_root example_state 16 4 = Inr [0] \<and>
   get_block_root example_state 15 4 = Inl ValidationError \<and>
   get_block_root example_state 20 4 = Inl ValidationError \<and>
   latest_block_roots example_state ! nat (17 mod 4) = [1]"
  using get_block_root_window [of example_state 17 4]
  by (simp add: get_block_root_eval example_state_def)

section \<open>Surround votes\<close>

text \<open>
  C10: for a positive epoch length, \<open>is_surround_vote a b\<close> and \<open>is_surround_vote b a\<close>
  are never both true, and \<open>is_surround_vote a a\<close> is false.
\<close>

theorem is_surround_vote_asymmetric:
  "0 < epoch_length \<Longrightarrow>
     \<not> (is_surround_vote a b epoch_length = Inr True \<and>
        is_surround_vote b a epoch_length = Inr True) \<and>
     is_surround_vote a a epoch_length = Inr False"
  by (auto simp add: is_surround_vote_def slot_to_epoch_def py_floordiv_def Let_def)

text \<open>
  C10, on two votes with epochs of four slots: the first (source epoch 1, slot 20)
  surrounds the second (source epoch 2, slot 12), and not the other way round.
\<close>

theorem is_surround_vote_asymmetric_witness:
  "(0::int) < 4 \<and>
   is_surround_vote
     \<lparr>AttestationData.slot = 20, shard = 0, AttestationData.justified_epoch = 1\<rparr>
     \<lparr>AttestationData.slot = 12, shard = 0, AttestationData.justified_epoch = 2\<rparr> 4 = Inr True \<and>
   is_surround_vote
     \<lparr>AttestationData.slot = 12, shard = 0, AttestationData.justified_epoch = 2\<rparr>
     \<lparr>AttestationData.slot = 20, shard = 0, AttestationData.justified_epoch = 1\<rparr> 4 = Inr False \<and>
   is_surround_vote
     \<lparr>AttestationData.slot = 20, shard = 0, AttestationData.justified_epoch = 1\<rparr>
     \<lparr>AttestationData.slot = 20, shard = 0, AttestationData.justified_epoch = 1\<rparr> 4 = Inr False"
  using is_surround_vote_asymmetric
    [of 4 "\<lparr>AttestationData.slot = 20, shard = 0, AttestationData.justified_epoch = 1\<rparr>"
       "\<lparr>AttestationData.slot = 12, shard = 0, AttestationData.justified_epoch = 2\<rparr>"]
  by (simp add: is_surround_vote_def slot_to_epoch_def py_floordiv_def Let_def)

section \<open>Finality rules\<close>

text \<open>
  C2: \<open>_get_finalized_epoch\<close> is the rule table of the specification: rules 4, 3, 2, 1
  in this order, the first match deciding, the finalized epoch unchanged when none
  matches.
\<close>

theorem get_finalized_epoch_rules:
  "get_finalized_epoch bitfield prev_justified justified finalized prev_epoch =
   finality_rules_spec bitfield prev_justified justified finalized prev_epoch"
  by (simp add: get_finalized_epoch_def finality_rules_spec_def and_3_eq_mod and_7_eq_mod
      Let_def)

section \<open>Justification and finality\<close>

text \<open>
  The bits of the values that \<open>process_justification\<close> ORs into the shifted bitfield.
\<close>

lemma bit_int_3: "bit (3::int) n \<longleftrightarrow> n < 2"
proof -
  have m: "(mask 2 :: int) = 3" by (simp add: mask_eq_exp_minus_1)
  have "bit (mask 2 :: int) n \<longleftrightarrow> n < 2" by (simp only: bit_mask_iff) simp
  then show ?thesis unfolding m .
qed

lemma bit_int_2: "bit (2::int) n \<longleftrightarrow> n = 1"
  using bit_exp_iff [where ?'a = int, of 1 n] by auto

lemma bit_shift_left_1: "bit (push_bit 1 b :: int) n \<longleftrightarrow> 0 < n \<and> bit b (n - 1)"
  by (simp only: bit_push_bit_iff) auto

lemma small_bits:
  "bit (of_bool cj + 2 * of_bool pj :: int) n \<longleftrightarrow> (n = 0 \<and> cj) \<or> (n = 1 \<and> pj)"
  by (cases cj; cases pj) (auto simp add: bit_int_3 bit_int_2 bit_1_iff)

lemma or_flags:
  "(if pj \<and> cj then b OR 3 else if pj then b OR 2 else if cj then b OR 1 else b) =
   b OR (of_bool cj + 2 * of_bool pj :: int)"
  by (cases cj; cases pj) simp_all

lemma shifted_bits:
  "bit (push_bit 1 b OR (of_bool cj + 2 * of_bool pj) :: int) n \<longleftrightarrow>
     (n = 0 \<and> cj) \<or> (n = 1 \<and> (pj \<or> bit b 0)) \<or> (2 \<le> n \<and> bit b (n - 1))"
proof -
  consider "n = 0" | "n = 1" | "2 \<le> n" by arith
  then show ?thesis
    unfolding bit_or_iff bit_shift_left_1 small_bits by cases auto
qed

text \<open>
  \<open>process_justification\<close> in one equation, once the two epochs and the two flags are
  known: the new bitfield is the old one shifted left by one, ORed with the flag of the
  current epoch at bit 0 and the flag of the previous epoch at bit 1.
\<close>

lemma process_justification_eval:
  assumes "state_current_epoch ext state (BeaconConfig.EPOCH_LENGTH config) = Inr ce"
    and "state_previous_epoch ext state (BeaconConfig.EPOCH_LENGTH config)
           (GENESIS_EPOCH config) = Inr pe"
    and "current_previous_epochs_justifiable ext state ce pe config = Inr (cj, pj)"
  shows "process_justification ext state config =
     Inr (state\<lparr>previous_justified_epoch := justified_epoch state,
                 justified_epoch :=
                   (if cj then ce else if pj then pe else justified_epoch state),
                 justification_bitfield :=
                   push_bit 1 (justification_bitfield state) OR (of_bool cj + 2 * of_bool pj),
                 finalized_epoch :=
                   fst (get_finalized_epoch
                          (push_bit 1 (justification_bitfield state) OR
                             (of_bool cj + 2 * of_bool pj))
                          (previous_justified_epoch state) (justified_epoch state)
                          (finalized_epoch state) pe)\<rparr>)"
  using assms
  by (simp only: process_justification_def bind_err_simps Let_def prod.case or_flags)

lemma process_justification_Inr:
  assumes "process_justification ext state config = Inr state'"
  obtains ce pe cj pj where
    "state_current_epoch ext state (BeaconConfig.EPOCH_LENGTH config) = Inr ce"
    "state_previous_epoch ext state (BeaconConfig.EPOCH_LENGTH config)
       (GENESIS_EPOCH config) = Inr pe"
    "current_previous_epochs_justifiable ext state ce pe config = Inr (cj, pj)"
  using assms unfolding process_justification_def bind_err_eq_Inr
  by (auto split: prod.splits)

text \<open>
  The concrete chain: the state is in epoch 5, all three validators are active, the
  total balance is 300, and an epoch is justifiable from a boundary attesting balance of
  200 on.
\<close>

lemma example_epochs:
  "BeaconState.slot state = 20 \<Longrightarrow>
   state_current_epoch (example_externals pb cb wb) state
     (BeaconConfig.EPOCH_LENGTH example_config) = Inr 5 \<and>
   state_previous_epoch (example_externals pb cb wb) state
     (BeaconConfig.EPOCH_LENGTH example_config) (GENESIS_EPOCH example_config) = Inr 4 \<and>
   state_next_epoch (example_externals pb cb wb) state
     (BeaconConfig.EPOCH_LENGTH example_config) = Inr 6"
  by (simp add: example_externals_def example_config_def slot_to_epoch_def py_floordiv_def)

lemma example_total_balance:
  "get_total_balance [150, 100, 50] [0, 1, 2] 200 = Inr 300"
  by (simp add: get_total_balance_def get_effective_balance_def py_getitem_def py_index_def)

lemma example_active:
  "get_active_validator_indices (example_externals pb cb wb)
     [\<lparr>activation_epoch = 0, exit_epoch = 100\<rparr>,
      \<lparr>activation_epoch = 0, exit_epoch = 100\<rparr>,
      \<lparr>activation_epoch = 0, exit_epoch = 100\<rparr>] 5 = [0, 1, 2] \<and>
   get_active_validator_indices (example_externals pb cb wb)
     [\<lparr>activation_epoch = 0, exit_epoch = 100\<rparr>,
      \<lparr>activation_epoch = 0, exit_epoch = 100\<rparr>,
      \<lparr>activation_epoch = 0, exit_epoch = 100\<rparr>] 4 = [0, 1, 2]"
  by (simp add: get_active_validator_indices_def example_externals_def)

lemma example_justifiable:
  "validator_registry state = validator_registry example_state \<Longrightarrow>
   validator_balances state = validator_balances example_state \<Longrightarrow>
   current_previous_epochs_justifiable (example_externals pb cb wb) state 5 4
     example_config = Inr (200 \<le> cb, 200 \<le> pb)"
  using example_active [of pb cb wb]
  by (simp add: current_previous_epochs_justifiable_def example_state_def
      example_total_balance)
     (simp add: example_externals_def example_config_def example_total_balance)

text \<open>
  C1, as stated, fails: the claim puts the previous epoch at bit 0 and the current epoch at
  bit 1. On the concrete chain with an empty bitfield, the previous epoch justifiable and
  the current one not, the code returns the bitfield 2 (bit 1), where the claim's
  formula gives 1 (bit 0).
\<close>

theorem process_justification_bitfield_counterexample:
  "current_previous_epochs_justifiable (example_externals 300 0 0)
     (example_state\<lparr>justification_bitfield := 0\<rparr>) 5 4 example_config = Inr (False, True) \<and>
   map_sum id justification_bitfield
     (process_justification (example_externals 300 0 0)
        (example_state\<lparr>justification_bitfield := 0\<rparr>) example_config) = Inr 2 \<and>
   push_bit 1 (justification_bitfield (example_state\<lparr>justification_bitfield := 0\<rparr>)) OR
     (of_bool True + 2 * of_bool False) = (1::int)"
proof -
  let ?s = "example_state\<lparr>justification_bitfield := 0\<rparr>"
  have flags: "current_previous_epochs_justifiable (example_externals 300 0 0) ?s 5 4
      example_config = Inr (False, True)"
    using example_justifiable [of ?s 300 0 0] by simp
  have epochs: "BeaconState.slot ?s = 20" by (simp add: example_state_def)
  show ?thesis
    using flags
    by (simp add: process_justification_eval [OF _ _ flags] example_epochs [OF epochs])
qed

text \<open>
  C1, amended: the bitfield returned by \<open>process_justification\<close> is the input bitfield
  shifted left by one bit, ORed with a two-bit value in which bit 0 (value 1) is set if
  and only if the current epoch is justifiable and bit 1 (value 2) if and only if the
  previous epoch is; no other bit of that value is set, so bit 0 of the result is the
  current epoch's flag, bit 1 the previous epoch's flag or the old bit 0, and bit n the
  old bit n - 1 from 2 on. The transition returns whenever the two epochs and the two
  flags are computed.
\<close>

theorem process_justification_bitfield:
  assumes "state_current_epoch ext state (BeaconConfig.EPOCH_LENGTH config) = Inr ce"
    and "state_previous_epoch ext state (BeaconConfig.EPOCH_LENGTH config)
           (GENESIS_EPOCH config) = Inr pe"
    and "current_previous_epochs_justifiable ext state ce pe config = Inr (cj, pj)"
  shows "\<exists>state' v. process_justification ext state config = Inr state' \<and>
     justification_bitfield state' = push_bit 1 (justification_bitfield state) OR v \<and>
     v = of_bool cj + 2 * of_bool pj \<and>
     (bit v 0 \<longleftrightarrow> cj) \<and> (bit v 1 \<longleftrightarrow> pj) \<and> (\<forall>n. 2 \<le> n \<longrightarrow> \<not> bit v n) \<and>
     (\<forall>n. bit (justification_bitfield state') n \<longleftrightarrow>
        (n = 0 \<and> cj) \<or> (n = 1 \<and> (pj \<or> bit (justification_bitfield state) 0)) \<or>
        (2 \<le> n \<and> bit (justification_bitfield state) (n - 1)))"
proof -
  define v :: int where "v = of_bool cj + 2 * of_bool pj"
  define b' where "b' = push_bit 1 (justification_bitfield state) OR v"
  define state' where "state' =
    state\<lparr>previous_justified_epoch := justified_epoch state,
          justified_epoch := (if cj then ce else if pj then pe else justified_epoch state),
          justification_bitfield := b',
          finalized_epoch :=
            fst (get_finalized_epoch b' (previous_justified_epoch state)
                   (justified_epoch state) (finalized_epoch state) pe)\<rparr>"
  have run: "process_justification ext state config = Inr state'"
    unfolding state'_def b'_def v_def by (rule process_justification_eval [OF assms])
  have field: "justification_bitfield state' = b'"
    by (simp add: state'_def)
  have low: "bit v n \<longleftrightarrow> (n = 0 \<and> cj) \<or> (n = 1 \<and> pj)" for n
    unfolding v_def by (rule small_bits)
  have all: "bit b' n \<longleftrightarrow>
      (n = 0 \<and> cj) \<or> (n = 1 \<and> (pj \<or> bit (justification_bitfield state) 0)) \<or>
      (2 \<le> n \<and> bit (justification_bitfield state) (n - 1))" for n
    unfolding b'_def v_def by (rule shifted_bits)
  have "justification_bitfield state' = push_bit 1 (justification_bitfield state) OR v"
    by (simp only: field b'_def)
  moreover have "bit v 0 \<longleftrightarrow> cj" "bit v 1 \<longleftrightarrow> pj" "\<forall>n. 2 \<le> n \<longrightarrow> \<not> bit v n"
    by (simp_all add: low)
  moreover have "\<forall>n. bit (justification_bitfield state') n \<longleftrightarrow>
      (n = 0 \<and> cj) \<or> (n = 1 \<and> (pj \<or> bit (justification_bitfield state) 0)) \<or>
      (2 \<le> n \<and> bit (justification_bitfield state) (n - 1))"
    unfolding field using all by blast
  ultimately show ?thesis
    using run v_def by blast
qed

text \<open>
  C1, on the concrete chain (bitfield 3, shifted 6): only the current epoch justifiable
  gives 7, only the previous one 6, both 7, neither 6.
\<close>

theorem process_justification_bitfield_witness:
  "map_sum id justification_bitfield
     (process_justification (example_externals 0 300 0) example_state example_config) = Inr 7 \<and>
   map_sum id justification_bitfield
     (process_justification (example_externals 300 0 0) example_state example_config) = Inr 6 \<and>
   map_sum id justification_bitfield
     (process_justification (example_externals 300 300 0) example_state example_config) = Inr 7 \<and>
   map_sum id justification_bitfield
     (process_justification (example_externals 0 0 0) example_state example_config) = Inr 6"
proof -
  have epochs: "BeaconState.slot example_state = 20" by (simp add: example_state_def)
  have flags: "current_previous_epochs_justifiable (example_externals pb cb 0) example_state 5 4
      example_config = Inr (200 \<le> cb, 200 \<le> pb)" for pb cb
    using example_justifiable [of example_state pb cb 0] by simp
  have jb: "justification_bitfield example_state = 3" by (simp add: example_state_def)
  note ep = example_epochs [OF epochs]
  show ?thesis
    using process_justification_bitfield [OF _ _ flags [of 0 300]] ep [of 0 300 0]
      process_justification_bitfield [OF _ _ flags [of 300 0]] ep [of 300 0 0]
      process_justification_bitfield [OF _ _ flags [of 300 300]] ep [of 300 300 0]
      process_justification_bitfield [OF _ _ flags [of 0 0]] ep [of 0 0 0]
    by (auto simp add: jb)
qed

text \<open>
  C3: finality does not go back across epoch transitions. On a state whose epochs are
  in the order the chain keeps (finalized \<le> previous justified \<le> justified \<le> previous
  epoch \<le> current epoch), the finalized epoch of the state returned by
  \<open>process_justification\<close> is at least the finalized epoch of the input state, and the
  returned state is in that order again against the current epoch, which is the
  previous epoch of the next transition: the order, and with it the monotonicity, carries
  over from one transition to the next.
\<close>

theorem process_justification_finality_monotone:
  assumes "process_justification ext state config = Inr state'"
    and "state_current_epoch ext state (BeaconConfig.EPOCH_LENGTH config) = Inr ce"
    and "state_previous_epoch ext state (BeaconConfig.EPOCH_LENGTH config)
           (GENESIS_EPOCH config) = Inr pe"
    and "finalized_epoch state \<le> previous_justified_epoch state"
    and "previous_justified_epoch state \<le> justified_epoch state"
    and "justified_epoch state \<le> pe"
    and "pe \<le> ce"
  shows "finalized_epoch state \<le> finalized_epoch state' \<and>
         finalized_epoch state' \<le> previous_justified_epoch state' \<and>
         previous_justified_epoch state' \<le> justified_epoch state' \<and>
         justified_epoch state' \<le> ce"
proof -
  from assms(1) obtain ce' pe' cj pj where
    e: "state_current_epoch ext state (BeaconConfig.EPOCH_LENGTH config) = Inr ce'"
       "state_previous_epoch ext state (BeaconConfig.EPOCH_LENGTH config)
          (GENESIS_EPOCH config) = Inr pe'"
       "current_previous_epochs_justifiable ext state ce' pe' config = Inr (cj, pj)"
    by (rule process_justification_Inr)
  from e(1,2) assms(2,3) have same: "ce' = ce" "pe' = pe" by simp_all
  have fin: "finalized_epoch state \<le>
        fst (get_finalized_epoch b (previous_justified_epoch state) (justified_epoch state)
               (finalized_epoch state) pe) \<and>
      fst (get_finalized_epoch b (previous_justified_epoch state) (justified_epoch state)
             (finalized_epoch state) pe) \<le> justified_epoch state" for b
    using assms(4,5) by (simp add: get_finalized_epoch_def Let_def)
  from assms(1) have state': "state' =
      state\<lparr>previous_justified_epoch := justified_epoch state,
            justified_epoch := (if cj then ce else if pj then pe else justified_epoch state),
            justification_bitfield :=
              push_bit 1 (justification_bitfield state) OR (of_bool cj + 2 * of_bool pj),
            finalized_epoch :=
              fst (get_finalized_epoch
                     (push_bit 1 (justification_bitfield state) OR
                        (of_bool cj + 2 * of_bool pj))
                     (previous_justified_epoch state) (justified_epoch state)
                     (finalized_epoch state) pe)\<rparr>"
    unfolding process_justification_eval [OF e] same by simp
  show ?thesis
    unfolding state' using fin assms(6,7) by simp
qed

text \<open>
  The concrete chain one epoch later: the state is at slot 24, in epoch 6.
\<close>

lemma example_next_epochs:
  "BeaconState.slot state = 24 \<Longrightarrow>
   state_current_epoch (example_externals pb cb wb) state
     (BeaconConfig.EPOCH_LENGTH example_config) = Inr 6 \<and>
   state_previous_epoch (example_externals pb cb wb) state
     (BeaconConfig.EPOCH_LENGTH example_config) (GENESIS_EPOCH example_config) = Inr 5"
  by (simp add: example_externals_def example_config_def slot_to_epoch_def py_floordiv_def)

lemma example_next_justifiable:
  "validator_registry state = validator_registry example_state \<Longrightarrow>
   validator_balances state = validator_balances example_state \<Longrightarrow>
   current_previous_epochs_justifiable (example_externals pb cb wb) state 6 5
     example_config = Inr (200 \<le> cb, 200 \<le> pb)"
  by (simp add: current_previous_epochs_justifiable_def example_state_def
      get_active_validator_indices_def example_externals_def example_config_def
      example_total_balance)

text \<open>
  C3, on the concrete chain, two transitions in a row: from finalized epoch 2 (previous
  justified 3, justified 4, epochs 4 and 5) the first transition finalizes epoch 3; one
  epoch later, both epochs justifiable, the second finalizes epoch 4.
\<close>

theorem process_justification_finality_monotone_witness:
  "finalized_epoch example_state = 2 \<and>
   map_sum id finalized_epoch
     (process_justification (example_externals 0 0 0) example_state example_config) = Inr 3 \<and>
   map_sum id finalized_epoch
     (process_justification (example_externals 300 300 0)
        (example_state\<lparr>slot := 24, previous_justified_epoch := 4,
           justification_bitfield := 6, finalized_epoch := 3\<rparr>) example_config) = Inr 4"
proof -
  let ?s2 = "example_state\<lparr>slot := 24, previous_justified_epoch := 4,
    justification_bitfield := 6, finalized_epoch := 3\<rparr>"
  have flags: "current_previous_epochs_justifiable (example_externals 0 0 0) example_state 5 4
      example_config = Inr (False, False)"
    using example_justifiable [of example_state 0 0 0] by simp
  have epochs: "BeaconState.slot example_state = 20" by (simp add: example_state_def)
  note ep = example_epochs [OF epochs, of 0 0 0]
  have run: "process_justification (example_externals 0 0 0) example_state example_config =
      Inr (example_state\<lparr>previous_justified_epoch := 4, justification_bitfield := 6,
             finalized_epoch := 3\<rparr>)"
    by (simp add: process_justification_eval [OF _ _ flags] ep)
       (simp add: example_state_def get_finalized_epoch_def)
  have flags2: "current_previous_epochs_justifiable (example_externals 300 300 0) ?s2 6 5
      example_config = Inr (True, True)"
    using example_next_justifiable [of ?s2 300 300 0] by simp
  have epochs2: "BeaconState.slot ?s2 = 24" by simp
  note ep2 = example_next_epochs [OF epochs2, of 300 300 0]
  have run2: "process_justification (example_externals 300 300 0) ?s2 example_config =
      Inr (example_state\<lparr>slot := 24, previous_justified_epoch := 4, justified_epoch := 6,
             justification_bitfield := 15, finalized_epoch := 4\<rparr>)"
    by (simp add: process_justification_eval [OF _ _ flags2] ep2)
       (simp add: example_state_def get_finalized_epoch_def)
  have fields: "finalized_epoch example_state = 2" "previous_justified_epoch example_state = 3"
    "justified_epoch example_state = 4"
    by (simp_all add: example_state_def)
  show ?thesis
    using process_justification_finality_monotone [OF run conjunct1 [OF ep]
        conjunct1 [OF conjunct2 [OF ep]]]
      process_justification_finality_monotone [OF run2 conjunct1 [OF ep2]
        conjunct2 [OF ep2]]
    by (simp add: run run2 fields)
qed

text \<open>
  C5: the finalized epoch of the returned state is \<open>_get_finalized_epoch\<close> of the
  returned (post-shift) bitfield, the input state's previous justified epoch, justified
  epoch and finalized epoch, and the previous epoch: the justified epoch chosen in
  this transition is no argument of it. The input's justified epoch becomes the
  previous justified epoch of the result.
\<close>

theorem process_justification_finality_inputs:
  assumes "process_justification ext state config = Inr state'"
    and "state_previous_epoch ext state (BeaconConfig.EPOCH_LENGTH config)
           (GENESIS_EPOCH config) = Inr pe"
  shows "finalized_epoch state' =
           fst (get_finalized_epoch (justification_bitfield state')
                  (previous_justified_epoch state) (justified_epoch state)
                  (finalized_epoch state) pe) \<and>
         previous_justified_epoch state' = justified_epoch state"
proof -
  from assms(1) obtain ce pe' cj pj where
    e: "state_current_epoch ext state (BeaconConfig.EPOCH_LENGTH config) = Inr ce"
       "state_previous_epoch ext state (BeaconConfig.EPOCH_LENGTH config)
          (GENESIS_EPOCH config) = Inr pe'"
       "current_previous_epochs_justifiable ext state ce pe' config = Inr (cj, pj)"
    by (rule process_justification_Inr)
  from e(2) assms(2) have "pe' = pe" by simp
  with assms(1) show ?thesis
    unfolding process_justification_eval [OF e] by auto
qed

text \<open>
  C5, on the concrete chain with only the current epoch justifiable: the bitfield
  becomes 7 and the justified epoch moves from 4 to 5; rule 4 fires on the old justified
  epoch 4 and finalizes it, where the new justified epoch 5 would have left rule 2 to
  finalize epoch 3.
\<close>

theorem process_justification_finality_inputs_witness:
  "map_sum id finalized_epoch
     (process_justification (example_externals 0 300 0) example_state example_config) = Inr 4 \<and>
   map_sum id justified_epoch
     (process_justification (example_externals 0 300 0) example_state example_config) = Inr 5 \<and>
   justified_epoch example_state = 4 \<and>
   fst (get_finalized_epoch 7 3 4 2 4) = 4 \<and>
   fst (get_finalized_epoch 7 3 5 2 4) = 3"
proof -
  have flags: "current_previous_epochs_justifiable (example_externals 0 300 0) example_state 5 4
      example_config = Inr (True, False)"
    using example_justifiable [of example_state 0 300 0] by simp
  have epochs: "BeaconState.slot example_state = 20" by (simp add: example_state_def)
  note ep = example_epochs [OF epochs, of 0 300 0]
  have run: "process_justification (example_externals 0 300 0) example_state example_config =
      Inr (example_state\<lparr>previous_justified_epoch := 4, justified_epoch := 5,
             justification_bitfield := 7, finalized_epoch := 4\<rparr>)"
    by (simp add: process_justification_eval [OF _ _ flags] ep)
       (simp add: example_state_def get_finalized_epoch_def)
  show ?thesis
    using process_justification_finality_inputs [OF run] ep
    by (simp add: run get_finalized_epoch_def)
qed

section \<open>Crosslinks\<close>

text \<open>
  The total effective balance of a committee is the sum that the loop body computes.
\<close>

lemma get_total_balance_Inr:
  "get_total_balance balances indices max_deposit = Inr t \<longleftrightarrow>
     (\<exists>bs. mapM_err (\<lambda>i. get_effective_balance balances i max_deposit) indices = Inr bs \<and>
           t = sum_list bs)"
  unfolding get_total_balance_def bind_err_eq_Inr by auto

text \<open>
  The loop body for one committee, once a winning root is found and the balances of the
  committee are read: it compares three times the attesting balance with twice the total
  balance.
\<close>

lemma process_crosslinks_committee_eval:
  assumes "get_winning_root ext state sh
             (filter_attestations_by_shard (prev @ cur) sh)
             (MAX_DEPOSIT_AMOUNT config) (committee_config ext config) =
           Inr (winning_root, attesting_balance)"
    and "get_total_balance (validator_balances state) committee (MAX_DEPOSIT_AMOUNT config) =
           Inr total_balance"
  shows "process_crosslinks_committee ext state config prev cur (committee, sh) crosslinks =
     (if 3 * attesting_balance \<ge> 2 * total_balance
      then bind_err (state_current_epoch ext state (BeaconConfig.EPOCH_LENGTH config))
             (\<lambda>current_epoch.
                update_tuple_item crosslinks sh
                  \<lparr>CrosslinkRecord.epoch = current_epoch, shard_block_root = winning_root\<rparr>)
      else Inr crosslinks)"
proof -
  from assms(2) obtain bs where
    bs: "mapM_err (\<lambda>i. get_effective_balance (validator_balances state) i
                        (MAX_DEPOSIT_AMOUNT config)) committee = Inr bs"
    and total: "total_balance = sum_list bs"
    unfolding get_total_balance_Inr by blast
  show ?thesis
    by (simp add: process_crosslinks_committee_def assms(1) bs total Let_def)
qed

lemma process_crosslinks_committee_no_root:
  "get_winning_root ext state sh (filter_attestations_by_shard (prev @ cur) sh)
     (MAX_DEPOSIT_AMOUNT config) (committee_config ext config) = Inl NoWinningRootError \<Longrightarrow>
   process_crosslinks_committee ext state config prev cur (committee, sh) crosslinks =
     Inr crosslinks"
  by (simp add: process_crosslinks_committee_def)

lemma update_tuple_item_in_range:
  "0 \<le> i \<Longrightarrow> i < int (length xs) \<Longrightarrow> update_tuple_item xs i v = Inr (xs[nat i := v])"
  by (simp add: update_tuple_item_def py_index_def)

text \<open>
  C4: when a winning root is found for a shard (the committee's total effective balance
  being \<open>total_balance\<close>), the shard's crosslink record is replaced through
  \<open>update_tuple_item\<close> with the current epoch and the winning root if 3 times the
  attesting balance is at least 2 times the total balance, which for a shard inside the
  tuple gives the tuple with that one record replaced; below the threshold the
  crosslinks are returned unchanged, as with total balance 300 and attesting balance 150.
\<close>

theorem process_crosslinks_threshold:
  assumes "get_winning_root ext state sh
             (filter_attestations_by_shard (prev @ cur) sh)
             (MAX_DEPOSIT_AMOUNT config) (committee_config ext config) =
           Inr (winning_root, attesting_balance)"
    and "get_total_balance (validator_balances state) committee (MAX_DEPOSIT_AMOUNT config) =
           Inr total_balance"
  shows "(3 * attesting_balance \<ge> 2 * total_balance \<longrightarrow>
            process_crosslinks_committee ext state config prev cur (committee, sh) crosslinks =
              bind_err (state_current_epoch ext state (BeaconConfig.EPOCH_LENGTH config))
                (\<lambda>current_epoch.
                   update_tuple_item crosslinks sh
                     \<lparr>CrosslinkRecord.epoch = current_epoch,
                      shard_block_root = winning_root\<rparr>)) \<and>
         (3 * attesting_balance \<ge> 2 * total_balance \<longrightarrow>
            state_current_epoch ext state (BeaconConfig.EPOCH_LENGTH config) = Inr current_epoch \<longrightarrow>
            0 \<le> sh \<longrightarrow> sh < int (length crosslinks) \<longrightarrow>
            process_crosslinks_committee ext state config prev cur (committee, sh) crosslinks =
              Inr (crosslinks[nat sh := \<lparr>CrosslinkRecord.epoch = current_epoch,
                                         shard_block_root = winning_root\<rparr>])) \<and>
         (3 * attesting_balance < 2 * total_balance \<longrightarrow>
            process_crosslinks_committee ext state config prev cur (committee, sh) crosslinks =
              Inr crosslinks) \<and>
         (total_balance = 300 \<longrightarrow> attesting_balance = 150 \<longrightarrow>
            process_crosslinks_committee ext state config prev cur (committee, sh) crosslinks =
              Inr crosslinks)"
  unfolding process_crosslinks_committee_eval [OF assms]
  by (simp add: update_tuple_item_in_range)

text \<open>
  C9: the state returned by \<open>process_crosslinks\<close> is the input state with the field
  \<open>latest_crosslinks\<close> replaced: every other field is unchanged.
\<close>

theorem process_crosslinks_frame:
  assumes "process_crosslinks ext state config = Inr state'"
  shows "state' = state\<lparr>latest_crosslinks := latest_crosslinks state'\<rparr>"
  using assms unfolding process_crosslinks_def bind_err_eq_Inr Let_def
  by auto

lemma example_winning_root:
  "get_winning_root (example_externals pb cb wb) example_state 0
     (filter_attestations_by_shard ([] @ latest_attestations example_state) 0)
     (MAX_DEPOSIT_AMOUNT example_config)
     (committee_config (example_externals pb cb wb) example_config) = Inr ([50], wb)"
  by (simp add: example_externals_def example_state_def filter_attestations_by_shard_def)

lemma example_committee_balance:
  "get_total_balance (validator_balances example_state) [0, 1, 2]
     (MAX_DEPOSIT_AMOUNT example_config) = Inr 300"
  by (simp add: example_state_def example_config_def get_total_balance_def
      get_effective_balance_def py_getitem_def py_index_def)

lemma example_crosslinks_run:
  "process_crosslinks (example_externals pb cb wb) example_state example_config =
     Inr (example_state\<lparr>latest_crosslinks :=
            (if 200 \<le> wb
             then [\<lparr>CrosslinkRecord.epoch = 5, shard_block_root = [50]\<rparr>,
                   \<lparr>CrosslinkRecord.epoch = 3, shard_block_root = [31]\<rparr>]
             else [\<lparr>CrosslinkRecord.epoch = 3, shard_block_root = [30]\<rparr>,
                   \<lparr>CrosslinkRecord.epoch = 3, shard_block_root = [31]\<rparr>])\<rparr>)"
  by (simp add: process_crosslinks_def process_crosslinks_slot_def
      process_crosslinks_committee_def example_externals_def example_config_def
      example_state_def get_epoch_start_slot_def py_range_def slot_to_epoch_def
      py_floordiv_def filter_attestations_by_shard_def get_effective_balance_def
      py_getitem_def py_index_def update_tuple_item_def Let_def)

text \<open>
  C4, on the concrete chain (committee balances 150, 100 and 50, total 300): with an
  attesting balance of 150 the crosslinks stay as they are, with 200 the record of
  shard 0 becomes epoch 5 with the winning root; the same through the whole of
  \<open>process_crosslinks\<close>.
\<close>

theorem process_crosslinks_threshold_witness:
  "process_crosslinks_committee (example_externals 0 0 150) example_state example_config []
     (latest_attestations example_state) ([0, 1, 2], 0) (latest_crosslinks example_state) =
     Inr (latest_crosslinks example_state) \<and>
   process_crosslinks_committee (example_externals 0 0 200) example_state example_config []
     (latest_attestations example_state) ([0, 1, 2], 0) (latest_crosslinks example_state) =
     Inr ((latest_crosslinks example_state)
            [0 := \<lparr>CrosslinkRecord.epoch = 5, shard_block_root = [50]\<rparr>]) \<and>
   map_sum id latest_crosslinks
     (process_crosslinks (example_externals 0 0 150) example_state example_config) =
     Inr (latest_crosslinks example_state) \<and>
   map_sum id latest_crosslinks
     (process_crosslinks (example_externals 0 0 200) example_state example_config) =
     Inr [\<lparr>CrosslinkRecord.epoch = 5, shard_block_root = [50]\<rparr>,
          \<lparr>CrosslinkRecord.epoch = 3, shard_block_root = [31]\<rparr>]"
proof -
  have epochs: "BeaconState.slot example_state = 20" by (simp add: example_state_def)
  have len: "(0::int) < int (length (latest_crosslinks example_state))"
    by (simp add: example_state_def)
  have links: "latest_crosslinks example_state =
      [\<lparr>CrosslinkRecord.epoch = 3, shard_block_root = [30]\<rparr>,
       \<lparr>CrosslinkRecord.epoch = 3, shard_block_root = [31]\<rparr>]"
    by (simp add: example_state_def)
  show ?thesis
    using process_crosslinks_threshold [OF example_winning_root [of 0 0 150]
        example_committee_balance,
        where current_epoch = 5 and crosslinks = "latest_crosslinks example_state"]
      process_crosslinks_threshold [OF example_winning_root [of 0 0 200]
        example_committee_balance,
        where current_epoch = 5 and crosslinks = "latest_crosslinks example_state"]
      example_epochs [OF epochs, of 0 0 150] example_epochs [OF epochs, of 0 0 200] len
    by (simp add: example_crosslinks_run links update_tuple_item_def py_index_def)
qed

text \<open>
  C9, on the concrete chain: the returned state is the input state with the new
  crosslinks.
\<close>

theorem process_crosslinks_frame_witness:
  "process_crosslinks (example_externals 0 0 200) example_state example_config =
     Inr (example_state\<lparr>latest_crosslinks :=
            [\<lparr>CrosslinkRecord.epoch = 5, shard_block_root = [50]\<rparr>,
             \<lparr>CrosslinkRecord.epoch = 3, shard_block_root = [31]\<rparr>]\<rparr>)"
  using process_crosslinks_frame [OF example_crosslinks_run [of 0 0 200]]
  by (simp add: example_crosslinks_run)

section \<open>Validator registry and final updates\<close>

text \<open>
  C7: whenever \<open>process_validator_registry\<close> returns, the returned state has
  \<open>previous_calculation_epoch\<close>, \<open>previous_epoch_start_shard\<close> and
  \<open>previous_epoch_seed\<close> equal to the input state's \<open>current_calculation_epoch\<close>,
  \<open>current_epoch_start_shard\<close> and \<open>current_epoch_seed\<close>, whichever branch runs:
  the snapshot is taken first, from the input, and no branch writes these fields.
\<close>

theorem process_validator_registry_snapshot:
  assumes "process_validator_registry ext state config = Inr state'"
  shows "previous_calculation_epoch state' = current_calculation_epoch state \<and>
         previous_epoch_start_shard state' = current_epoch_start_shard state \<and>
         previous_epoch_seed state' = current_epoch_seed state"
  using assms
  unfolding process_validator_registry_def update_validator_registry_def Let_def
  by (auto simp add: bind_err_eq_Inr split: prod.splits if_splits)

text \<open>
  The three paths of \<open>process_validator_registry\<close> on the concrete chain: a registry
  update (finalized epoch 2 and both crosslinks newer than the last update in epoch 1),
  the seed refresh alone (finalized epoch 1, and 5 - 1 = 4 a power of two), and no
  other change (last update in epoch 2, and 5 - 2 = 3).
\<close>

lemma example_registry_update_run:
  "process_validator_registry (example_externals pb cb wb) example_state example_config =
     Inr (example_state\<lparr>previous_calculation_epoch := 5, previous_epoch_start_shard := 1,
            previous_epoch_seed := [40], current_calculation_epoch := 6,
            current_epoch_start_shard := 0, current_epoch_seed := [34]\<rparr>)"
  by (simp add: process_validator_registry_def update_validator_registry_def
      check_if_update_validator_registry_def generate_seed_def get_randao_mix_def
      get_active_index_root_def validate_epoch_for_active_randao_mix_def
      validate_epoch_for_active_index_root_def to_bytes32_little_def
      example_externals_def example_config_def example_state_def slot_to_epoch_def
      py_floordiv_def py_mod_def py_range_def py_getitem_def py_index_def Let_def)

lemma example_seed_refresh_run:
  "process_validator_registry (example_externals pb cb wb)
     (example_state\<lparr>finalized_epoch := 1\<rparr>) example_config =
     Inr (example_state\<lparr>finalized_epoch := 1, previous_calculation_epoch := 5,
            previous_epoch_start_shard := 1, previous_epoch_seed := [40],
            current_calculation_epoch := 6, current_epoch_seed := [34]\<rparr>)"
  by (simp add: process_validator_registry_def update_validator_registry_def
      check_if_update_validator_registry_def generate_seed_def get_randao_mix_def
      get_active_index_root_def validate_epoch_for_active_randao_mix_def
      validate_epoch_for_active_index_root_def to_bytes32_little_def
      example_externals_def example_config_def example_state_def slot_to_epoch_def
      py_floordiv_def py_mod_def py_range_def py_getitem_def py_index_def Let_def)

lemma example_no_change_run:
  "process_validator_registry (example_externals pb cb wb)
     (example_state\<lparr>finalized_epoch := 1, validator_registry_update_epoch := 2\<rparr>)
     example_config =
     Inr (example_state\<lparr>finalized_epoch := 1, validator_registry_update_epoch := 2,
            previous_calculation_epoch := 5, previous_epoch_start_shard := 1,
            previous_epoch_seed := [40]\<rparr>)"
  by (simp add: process_validator_registry_def update_validator_registry_def
      check_if_update_validator_registry_def generate_seed_def get_randao_mix_def
      get_active_index_root_def validate_epoch_for_active_randao_mix_def
      validate_epoch_for_active_index_root_def to_bytes32_little_def
      example_externals_def example_config_def example_state_def slot_to_epoch_def
      py_floordiv_def py_mod_def py_range_def py_getitem_def py_index_def Let_def)

text \<open>
  C7, on the concrete chain: in the registry-update branch, in the seed-refresh branch
  and when nothing else changes, the previous calculation epoch, start shard and seed
  are 5, 1 and \<open>[40]\<close>, the input's current values, also where the current values
  move on to 6, 0 and \<open>[34]\<close>.
\<close>

theorem process_validator_registry_snapshot_witness:
  "map_sum id (\<lambda>s. (previous_calculation_epoch s, previous_epoch_start_shard s,
                     previous_epoch_seed s, current_calculation_epoch s,
                     current_epoch_start_shard s, current_epoch_seed s))
     (process_validator_registry (example_externals 0 0 0) example_state example_config) =
     Inr (5, 1, [40], 6, 0, [34]) \<and>
   map_sum id (\<lambda>s. (previous_calculation_epoch s, previous_epoch_start_shard s,
                     previous_epoch_seed s, current_calculation_epoch s,
                     current_epoch_start_shard s, current_epoch_seed s))
     (process_validator_registry (example_externals 0 0 0)
        (example_state\<lparr>finalized_epoch := 1\<rparr>) example_config) =
     Inr (5, 1, [40], 6, 1, [34]) \<and>
   map_sum id (\<lambda>s. (previous_calculation_epoch s, previous_epoch_start_shard s,
                     previous_epoch_seed s, current_calculation_epoch s,
                     current_epoch_start_shard s, current_epoch_seed s))
     (process_validator_registry (example_externals 0 0 0)
        (example_state\<lparr>finalized_epoch := 1, validator_registry_update_epoch := 2\<rparr>)
        example_config) =
     Inr (5, 1, [40], 5, 1, [40]) \<and>
   current_calculation_epoch example_state = 5 \<and>
   current_epoch_start_shard example_state = 1 \<and>
   current_epoch_seed example_state = [40]"
  using process_validator_registry_snapshot [OF example_registry_update_run [of 0 0 0]]
    process_validator_registry_snapshot [OF example_seed_refresh_run [of 0 0 0]]
    process_validator_registry_snapshot [OF example_no_change_run [of 0 0 0]]
  by (simp add: example_registry_update_run example_seed_refresh_run example_no_change_run)

text \<open>
  \<open>_update_latest_active_index_roots\<close> leaves the slashed balances, the RANDAO mixes
  and the attestations as they are; \<open>get_randao_mix\<close> returns the entry at
  \<open>epoch % latest_randao_mixes_length\<close>, for a positive length.
\<close>

lemma update_latest_active_index_roots_fields:
  assumes "update_latest_active_index_roots ext state cfg = Inr state1"
  shows "latest_slashed_balances state1 = latest_slashed_balances state"
    and "latest_randao_mixes state1 = latest_randao_mixes state"
    and "latest_attestations state1 = latest_attestations state"
  using assms unfolding update_latest_active_index_roots_def Let_def
  by (auto simp add: bind_err_eq_Inr)

lemma get_randao_mix_Inr:
  assumes "get_randao_mix ext state e epoch_length len = Inr mix"
  shows "0 < len" and "py_getitem (latest_randao_mixes state) (e mod len) = Inr mix"
  using assms unfolding get_randao_mix_def validate_epoch_for_active_randao_mix_def py_mod_def
  by (auto simp add: bind_err_eq_Inr split: if_splits)

lemma py_mod_Inr: "py_mod a b = Inr r \<longleftrightarrow> b \<noteq> 0 \<and> r = a mod b"
  by (auto simp add: py_mod_def)

lemma py_getitem_Inr_nonneg:
  "0 \<le> i \<Longrightarrow> py_getitem xs i = Inr x \<Longrightarrow> x = xs ! nat i"
  by (simp add: py_getitem_nonneg split: if_splits)

lemma update_tuple_item_Inr_nonneg:
  "0 \<le> i \<Longrightarrow> update_tuple_item xs i v = Inr ys \<Longrightarrow> ys = xs[nat i := v]"
  by (auto simp add: update_tuple_item_def py_index_def split: if_splits)

text \<open>
  C6: whenever \<open>process_final_updates\<close> returns, the returned slashed balances are
  the input's with the entry at \<open>current_epoch % LATEST_SLASHED_EXIT_LENGTH\<close> written
  to index \<open>next_epoch % LATEST_SLASHED_EXIT_LENGTH\<close>, and the returned RANDAO mixes
  are the input's with the current epoch's mix (the entry at
  \<open>current_epoch % LATEST_RANDAO_MIXES_LENGTH\<close>) written to index
  \<open>next_epoch % LATEST_SLASHED_EXIT_LENGTH\<close>: the modulus of the write is the length of
  the slashed-balances buffer.
\<close>

theorem process_final_updates_copies:
  assumes "process_final_updates ext state config = Inr state'"
  shows "\<exists>current_epoch next_epoch balance mix.
     state_current_epoch ext state (BeaconConfig.EPOCH_LENGTH config) = Inr current_epoch \<and>
     state_next_epoch ext state (BeaconConfig.EPOCH_LENGTH config) = Inr next_epoch \<and>
     LATEST_SLASHED_EXIT_LENGTH config \<noteq> 0 \<and> 0 < LATEST_RANDAO_MIXES_LENGTH config \<and>
     py_getitem (latest_slashed_balances state)
       (current_epoch mod LATEST_SLASHED_EXIT_LENGTH config) = Inr balance \<and>
     update_tuple_item (latest_slashed_balances state)
       (next_epoch mod LATEST_SLASHED_EXIT_LENGTH config) balance =
       Inr (latest_slashed_balances state') \<and>
     py_getitem (latest_randao_mixes state)
       (current_epoch mod LATEST_RANDAO_MIXES_LENGTH config) = Inr mix \<and>
     update_tuple_item (latest_randao_mixes state)
       (next_epoch mod LATEST_SLASHED_EXIT_LENGTH config) mix =
       Inr (latest_randao_mixes state') \<and>
     (0 < LATEST_SLASHED_EXIT_LENGTH config \<longrightarrow>
        latest_slashed_balances state' =
          (latest_slashed_balances state)
            [nat (next_epoch mod LATEST_SLASHED_EXIT_LENGTH config) :=
               latest_slashed_balances state !
                 nat (current_epoch mod LATEST_SLASHED_EXIT_LENGTH config)] \<and>
        latest_randao_mixes state' =
          (latest_randao_mixes state)
            [nat (next_epoch mod LATEST_SLASHED_EXIT_LENGTH config) :=
               latest_randao_mixes state !
                 nat (current_epoch mod LATEST_RANDAO_MIXES_LENGTH config)])"
proof -
  let ?L = "LATEST_SLASHED_EXIT_LENGTH config"
  let ?M = "LATEST_RANDAO_MIXES_LENGTH config"
  from assms obtain ce ne state1 balance new_balances mix new_mixes where
    ce: "state_current_epoch ext state (BeaconConfig.EPOCH_LENGTH config) = Inr ce"
    and ne: "state_next_epoch ext state (BeaconConfig.EPOCH_LENGTH config) = Inr ne"
    and s1: "update_latest_active_index_roots ext state (committee_config ext config) =
               Inr state1"
    and L: "?L \<noteq> 0"
    and bal: "py_getitem (latest_slashed_balances state1) (ce mod ?L) = Inr balance"
    and nb: "update_tuple_item (latest_slashed_balances state1) (ne mod ?L) balance =
               Inr new_balances"
    and mx: "get_randao_mix ext state1 ce (BeaconConfig.EPOCH_LENGTH config) ?M = Inr mix"
    and nm: "update_tuple_item (latest_randao_mixes state1) (ne mod ?L) mix = Inr new_mixes"
    and fields: "latest_slashed_balances state' = new_balances"
      "latest_randao_mixes state' = new_mixes"
    unfolding process_final_updates_def Let_def
    by (auto simp add: bind_err_eq_Inr py_mod_Inr)
  note same = update_latest_active_index_roots_fields [OF s1]
  note mixes = get_randao_mix_Inr [OF mx]
  have weak: "py_getitem (latest_slashed_balances state) (ce mod ?L) = Inr balance"
    "update_tuple_item (latest_slashed_balances state) (ne mod ?L) balance =
       Inr (latest_slashed_balances state')"
    "py_getitem (latest_randao_mixes state) (ce mod ?M) = Inr mix"
    "update_tuple_item (latest_randao_mixes state) (ne mod ?L) mix =
       Inr (latest_randao_mixes state')"
    using bal nb mixes(2) nm by (simp_all add: same fields)
  have strong: "latest_slashed_balances state' =
        (latest_slashed_balances state)
          [nat (ne mod ?L) := latest_slashed_balances state ! nat (ce mod ?L)] \<and>
      latest_randao_mixes state' =
        (latest_randao_mixes state)
          [nat (ne mod ?L) := latest_randao_mixes state ! nat (ce mod ?M)]"
    if pos: "0 < ?L"
  proof -
    have nn: "0 \<le> ce mod ?L" "0 \<le> ne mod ?L" "0 \<le> ce mod ?M"
      using pos mixes(1) by simp_all
    have "balance = latest_slashed_balances state ! nat (ce mod ?L)"
      by (rule py_getitem_Inr_nonneg [OF nn(1) weak(1)])
    moreover have "mix = latest_randao_mixes state ! nat (ce mod ?M)"
      by (rule py_getitem_Inr_nonneg [OF nn(3) weak(3)])
    moreover note update_tuple_item_Inr_nonneg [OF nn(2) weak(2)]
      update_tuple_item_Inr_nonneg [OF nn(2) weak(4)]
    ultimately show ?thesis by simp
  qed
  from ce ne L mixes(1) weak strong show ?thesis by blast
qed

lemma example_final_updates_fields:
  "map_sum id (\<lambda>s. (latest_slashed_balances s, latest_randao_mixes s))
     (process_final_updates (example_externals pb cb wb) example_state example_config) =
     Inr ([0, 7, 7, 0], [[10], [11], [15], [13], [14], [15], [16], [17]])"
  by (simp add: process_final_updates_def update_latest_active_index_roots_def
      get_active_validator_indices_def get_randao_mix_def
      validate_epoch_for_active_randao_mix_def update_tuple_item_def
      example_externals_def example_config_def example_state_def slot_to_epoch_def
      py_floordiv_def py_mod_def py_getitem_def py_index_def Let_def to_bytes32_big_def
      to_bytes32_little_def)

lemma example_final_updates_run:
  "\<exists>state'. process_final_updates (example_externals pb cb wb) example_state example_config =
     Inr state'"
  using example_final_updates_fields [of pb cb wb]
  by (cases "process_final_updates (example_externals pb cb wb) example_state example_config")
    simp_all

text \<open>
  C6, on the concrete chain (epoch 5, next epoch 6, four slashed balances, eight RANDAO
  mixes): the slashed balance 7 at index 1 is copied to index 2, and the mix \<open>[15]\<close>
  at index 5 is written to index 6 mod 4 = 2, not to index 6.
\<close>

theorem process_final_updates_copies_witness:
  "map_sum id latest_slashed_balances
     (process_final_updates (example_externals 0 0 0) example_state example_config) =
     Inr [0, 7, 7, 0] \<and>
   map_sum id latest_randao_mixes
     (process_final_updates (example_externals 0 0 0) example_state example_config) =
     Inr [[10], [11], [15], [13], [14], [15], [16], [17]] \<and>
   latest_slashed_balances example_state = [0, 7, 0, 0] \<and>
   latest_randao_mixes example_state = [[10], [11], [12], [13], [14], [15], [16], [17]] \<and>
   LATEST_SLASHED_EXIT_LENGTH example_config = 4 \<and>
   LATEST_RANDAO_MIXES_LENGTH example_config = 8 \<and>
   (6::int) mod 4 = 2 \<and> (5::int) mod 4 = 1 \<and> (5::int) mod 8 = 5"
proof -
  obtain state' where
    run: "process_final_updates (example_externals 0 0 0) example_state example_config =
      Inr state'"
    using example_final_updates_run by blast
  have fields: "latest_slashed_balances state' = [0, 7, 7, 0]"
    "latest_randao_mixes state' = [[10], [11], [15], [13], [14], [15], [16], [17]]"
    using example_final_updates_fields [of 0 0 0] by (simp_all add: run)
  have inputs: "latest_slashed_balances example_state = [0, 7, 0, 0]"
    "latest_randao_mixes example_state = [[10], [11], [12], [13], [14], [15], [16], [17]]"
    "LATEST_SLASHED_EXIT_LENGTH example_config = 4"
    "LATEST_RANDAO_MIXES_LENGTH example_config = 8"
    by (simp_all add: example_state_def example_config_def)
  show ?thesis
    using process_final_updates_copies [OF run]
    by (simp add: run fields inputs)
qed

end
